theory Spec2Isabelle
  imports Main "HOL-Library.Word"
begin

section \<open>Data model of \<open>pointvision_update.py\<close>, shared by both revisions\<close>

type_synonym u8 = "8 word"
type_synonym bytes = "u8 list"

text \<open>The grid constants of the configuration block.\<close>

definition voxels_x :: nat where "voxels_x = 128"
definition voxels_y :: nat where "voxels_y = 128"
definition voxels_z :: nat where "voxels_z = 64"
definition voxels_count :: nat where "voxels_count = voxels_x * voxels_y * voxels_z"

text \<open>
  The ctypes structure \<open>voxel_double_buffer_t\<close>. The field \<open>buffers\<close> is the flat
  array of \<open>2 * voxels_count\<close> bytes, page 0 first; an address outside that range is
  never stored to by the operations below.
\<close>

record voxel_double_buffer_t =
  buffers :: "nat \<Rightarrow> u8"
  page :: u8
  bpc :: u8
  flags :: "16 word"
  rpm :: "16 word"
  uspf :: "16 word"

text \<open>\<open>ctypes.sizeof(voxel_double_buffer_t)\<close>: the two pages and eight control bytes.\<close>

definition sizeof_voxel_double_buffer_t :: nat where
  "sizeof_voxel_double_buffer_t = 2 * voxels_count + 1 + 1 + 2 + 2 + 2"

text \<open>The Python exceptions that the modelled code can meet.\<close>

datatype py_exception =
  IndexError | ValueError | FileNotFoundError | IncompleteReadError
  | BadGzipFile | EOFError | ZlibError | OSError

section \<open>Stores into the shared region\<close>

text \<open>
  The rasterizer touches the shared region with three kinds of store, kept here in program
  order: \<open>voxels.fill(0)\<close> on the view of a page, one element of the scatter assignment
  \<open>voxels[y, x, z] = pix\<close> (view, offset inside the view, value), and the assignment
  \<open>buffer.page = write_page\<close>.
\<close>

datatype shm_store = Fill nat | Put nat nat u8 | SetPage u8

fun store :: "shm_store \<Rightarrow> voxel_double_buffer_t \<Rightarrow> voxel_double_buffer_t" where
  "store (Fill p) b =
     b\<lparr>buffers := (\<lambda>a. if p * voxels_count \<le> a \<and> a < p * voxels_count + voxels_count
                        then 0 else buffers b a)\<rparr>"
| "store (Put p i c) b = b\<lparr>buffers := (buffers b)(p * voxels_count + i := c)\<rparr>"
| "store (SetPage v) b = b\<lparr>page := v\<rparr>"

definition run_stores :: "shm_store list \<Rightarrow> voxel_double_buffer_t \<Rightarrow> voxel_double_buffer_t" where
  "run_stores ws b = fold store ws b"

section \<open>The rasterizer of \<open>update/pointvision_update.py\<close>: one frame of \<open>process_data\<close>\<close>

type_synonym point = "u8 \<times> u8 \<times> u8 \<times> u8"

text \<open>
  \<open>voxel_views[write_page]\<close>: indexing the two-element Python list, where a negative
  index counts from the end and anything else raises.
\<close>

definition voxel_views :: "int \<Rightarrow> py_exception + nat" where
  "voxel_views i =
     (if 0 \<le> i \<and> i < 2 then Inr (nat i)
      else if - 2 \<le> i \<and> i < 0 then Inr (nat (i + 2))
      else Inl IndexError)"

text \<open>
  \<open>np.frombuffer(data, dtype=np.uint8).reshape(-1, 4)\<close>: rows of four bytes; a length that
  is not a multiple of four raises \<open>ValueError\<close>.
\<close>

fun rows4 :: "bytes \<Rightarrow> point list" where
  "rows4 (x # y # z # c # rest) = (x, y, z, c) # rows4 rest"
| "rows4 _ = []"

definition reshape4 :: "bytes \<Rightarrow> py_exception + point list" where
  "reshape4 data = (if length data mod 4 = 0 then Inr (rows4 data) else Inl ValueError)"

text \<open>\<open>(x < voxels_x) & (y < voxels_y) & (z < voxels_z)\<close> for one row.\<close>

fun valid_mask :: "point \<Rightarrow> bool" where
  "valid_mask (x, y, z, c) = (unat x < voxels_x \<and> unat y < voxels_y \<and> unat z < voxels_z)"

text \<open>
  The offset of element \<open>[y, x, z]\<close> in a C-ordered view of shape
  \<open>(voxels_y, voxels_x, voxels_z)\<close>.
\<close>

definition voxel_index :: "nat \<Rightarrow> nat \<Rightarrow> nat \<Rightarrow> nat" where
  "voxel_index y x z = (y * voxels_x + x) * voxels_z + z"

fun put_point :: "nat \<Rightarrow> point \<Rightarrow> shm_store" where
  "put_point v (x, y, z, c) = Put v (voxel_index (unat y) (unat x) (unat z)) c"

datatype frame_outcome = Flipped | Skipped | Raised py_exception

record frame_run =
  stores :: "shm_store list"
  outcome :: frame_outcome
  num_invalid :: nat

text \<open>
  The body of the inner \<open>try\<close> of \<open>process_data\<close> for one payload taken from the queue,
  given the value read from \<open>buffer.page\<close>. It returns the stores performed up to the
  point where the body ends: by the flip, by the \<open>continue\<close> for a payload without a
  complete record, or by an exception (caught and printed by the \<open>except\<close> clause).
  The two branches of the test \<open>num_points <= len(point_buffer)\<close> build the same array,
  so the test does not appear; the frame counter and the printing are left out.
\<close>

definition process_data_frame :: "u8 \<Rightarrow> bytes \<Rightarrow> frame_run" where
  "process_data_frame current_page data =
     (let write_page = 1 - uint current_page in
      case voxel_views write_page of
        Inl e \<Rightarrow> \<lparr>stores = [], outcome = Raised e, num_invalid = 0\<rparr>
      | Inr voxels \<Rightarrow>
          let cleared = [Fill voxels];
              num_points = length data div 4
          in if num_points = 0
             then \<lparr>stores = cleared, outcome = Skipped, num_invalid = 0\<rparr>
             else
               (case reshape4 data of
                  Inl e \<Rightarrow> \<lparr>stores = cleared, outcome = Raised e, num_invalid = 0\<rparr>
                | Inr point_data \<Rightarrow>
                    let n_invalid = length (filter (\<lambda>p. \<not> valid_mask p) point_data);
                        kept = (if n_invalid > 0 then filter valid_mask point_data
                                else point_data);
                        scatter = (if length kept > 0 then map (put_point voxels) kept else [])
                    in \<lparr>stores = cleared @ scatter @ [SetPage (word_of_int write_page)],
                        outcome = Flipped, num_invalid = n_invalid\<rparr>))"

text \<open>The effect of that body on the shared region.\<close>

definition process_data_body :: "voxel_double_buffer_t \<Rightarrow> bytes \<Rightarrow> voxel_double_buffer_t" where
  "process_data_body buffer data = run_stores (stores (process_data_frame (page buffer) data)) buffer"


text \<open>The addresses of page \<open>p\<close> inside \<open>buffers\<close>.\<close>

definition page_addrs :: "nat \<Rightarrow> nat set" where
  "page_addrs p = {p * voxels_count ..< p * voxels_count + voxels_count}"

fun is_put :: "shm_store \<Rightarrow> bool" where
  "is_put (Put p i c) = True"
| "is_put _ = False"

fun is_set_page :: "shm_store \<Rightarrow> bool" where
  "is_set_page (SetPage v) = True"
| "is_set_page _ = False"

text \<open>
  The content of a cleared page after the surviving records have been written, as the
  specification words it: each record writes its colour byte at its index, and where
  several records name the same voxel the last one wins; a voxel no record names is 0.
\<close>

definition point_cell :: "point \<Rightarrow> nat \<times> u8" where
  "point_cell p = (case p of (x, y, z, c) \<Rightarrow> (voxel_index (unat y) (unat x) (unat z), c))"

definition last_writer_wins :: "point list \<Rightarrow> nat \<Rightarrow> u8" where
  "last_writer_wins kept i =
     (case map_of (rev (map point_cell kept)) i of None \<Rightarrow> 0 | Some c \<Rightarrow> c)"

section \<open>The frame queue of \<open>update/pointvision_update.py\<close>\<close>

text \<open>
  A call that may have to wait for another thread either returns its result or waits.
\<close>

datatype 'a attempt = Done 'a | Waits

text \<open>
  \<open>collections.deque(maxlen=n).append(x)\<close>: the item is added on the right and, when the
  deque has grown beyond \<open>maxlen\<close>, one item is removed on the left.
\<close>

definition deque_append :: "nat \<Rightarrow> 'a list \<Rightarrow> 'a \<Rightarrow> 'a list" where
  "deque_append maxlen q x = (let q' = q @ [x] in if length q' > maxlen then tl q' else q')"

text \<open>\<open>frame_queue = deque(maxlen=1)\<close> and \<open>frame_queue.append(decompressed)\<close>.\<close>

definition frame_queue_maxlen :: nat where "frame_queue_maxlen = 1"

definition frame_queue_append :: "bytes list \<Rightarrow> bytes \<Rightarrow> bytes list" where
  "frame_queue_append q decompressed = deque_append frame_queue_maxlen q decompressed"

text \<open>
  The offer of the handler, \<open>with queue_lock: frame_queue.append(decompressed)\<close>. The
  \<open>with\<close> statement waits as long as the other thread holds \<open>queue_lock\<close>
  (\<open>lock_held\<close>); the append itself returns at once, whatever the deque holds.
\<close>

definition frame_queue_offer :: "bool \<Rightarrow> bytes list \<Rightarrow> bytes \<Rightarrow> bytes list attempt" where
  "frame_queue_offer lock_held q decompressed =
     (if lock_held then Waits else Done (frame_queue_append q decompressed))"

text \<open>
  The queue check at the head of the loop of \<open>process_data\<close>:
  \<open>data = None\<close>, then \<open>if frame_queue: data = frame_queue.popleft()\<close>,
  inside \<open>with queue_lock\<close>.
\<close>

definition frame_queue_take :: "bytes list \<Rightarrow> bytes option \<times> bytes list" where
  "frame_queue_take q = (case q of [] \<Rightarrow> (None, []) | d # rest \<Rightarrow> (Some d, rest))"

definition frame_queue_poll :: "bool \<Rightarrow> bytes list \<Rightarrow> (bytes option \<times> bytes list) attempt" where
  "frame_queue_poll lock_held q = (if lock_held then Waits else Done (frame_queue_take q))"


section \<open>The connection handler of \<open>update/pointvision_update.py\<close>\<close>

text \<open>
  A reader is the sequence of bytes the peer sends before it ends the stream.
  \<open>reader.readexactly(n)\<close> returns the next \<open>n\<close> bytes, or raises
  \<open>IncompleteReadError\<close> when the stream ends first.
\<close>

definition readexactly :: "nat \<Rightarrow> bytes \<Rightarrow> py_exception + (bytes \<times> bytes)" where
  "readexactly n reader =
     (if n \<le> length reader then Inr (take n reader, drop n reader) else Inl IncompleteReadError)"

text \<open>\<open>struct.unpack('!I', b)[0]\<close>: big-endian unsigned.\<close>

definition unpack_I :: "bytes \<Rightarrow> nat" where
  "unpack_I b = foldl (\<lambda>acc byte. acc * 256 + unat byte) 0 b"

definition signature :: bytes where
  "signature = [0xFF, 0xFF, 0xFF, 0xFF]"

definition max_packet_length :: nat where
  "max_packet_length = 10000000"

text \<open>Why the handler left its loop; in each case the \<open>finally\<close> clause closes the writer.\<close>

datatype close_reason = InvalidSignature | PacketTooLarge | Exc py_exception

text \<open>
  The result of one pass through the loop of a handler: the loop is left, or it goes on
  with the rest of the stream and the queue as the pass leaves it, or the pass is waiting
  at its offer.
\<close>

datatype pass = Closes close_reason | Continues bytes "bytes list" | Waiting

text \<open>
  One pass through the loop of \<open>handle_client\<close>. \<open>gzip.decompress\<close> belongs to the
  Python library and is a parameter: it returns the decompressed bytes or raises. Both
  \<open>except\<close> clauses around the decompression \<open>continue\<close>.
\<close>

definition handle_client_iter ::
  "(bytes \<Rightarrow> py_exception + bytes) \<Rightarrow> bool \<Rightarrow> bytes \<Rightarrow> bytes list \<Rightarrow> pass" where
  "handle_client_iter decompress lock_held reader q =
     (case readexactly 8 reader of
        Inl e \<Rightarrow> Closes (Exc e)
      | Inr (header, reader1) \<Rightarrow>
          if take 4 header \<noteq> signature then Closes InvalidSignature
          else
            let packet_length = unpack_I (drop 4 header)
            in if packet_length > max_packet_length then Closes PacketTooLarge
               else
                 (case readexactly packet_length reader1 of
                    Inl e \<Rightarrow> Closes (Exc e)
                  | Inr (compressed_data, reader2) \<Rightarrow>
                      (case decompress compressed_data of
                         Inr decompressed \<Rightarrow>
                           (case frame_queue_offer lock_held q decompressed of
                              Done q' \<Rightarrow> Continues reader2 q'
                            | Waits \<Rightarrow> Waiting)
                       | Inl e \<Rightarrow> Continues reader2 q)))"

section \<open>The root-level revision, \<open>pointvision_update.py\<close>\<close>

text \<open>
  \<open>data_queue = queue.Queue(maxsize=2)\<close>. \<open>full()\<close> holds when a positive
  \<open>maxsize\<close> is reached; \<open>put\<close> adds on the right and waits while the queue is full;
  \<open>get\<close> removes on the left and waits while the queue is empty.
\<close>

definition data_queue_maxsize :: nat where "data_queue_maxsize = 2"

definition queue_full :: "nat \<Rightarrow> 'a list \<Rightarrow> bool" where
  "queue_full maxsize q = (0 < maxsize \<and> maxsize \<le> length q)"

definition queue_put :: "nat \<Rightarrow> 'a list \<Rightarrow> 'a \<Rightarrow> 'a list attempt" where
  "queue_put maxsize q x = (if queue_full maxsize q then Waits else Done (q @ [x]))"

definition queue_get :: "'a list \<Rightarrow> ('a \<times> 'a list) attempt" where
  "queue_get q = (case q of [] \<Rightarrow> Waits | x # rest \<Rightarrow> Done (x, rest))"

text \<open>The offer of the handler: \<open>if not data_queue.full(): data_queue.put(decompressed)\<close>.\<close>

definition data_queue_offer :: "bytes list \<Rightarrow> bytes \<Rightarrow> bytes list attempt" where
  "data_queue_offer q decompressed =
     (if \<not> queue_full data_queue_maxsize q then queue_put data_queue_maxsize q decompressed
      else Done q)"

text \<open>
  One pass through the loop of the root-level \<open>handle_client\<close>. The length field is not
  compared with anything. Only \<open>gzip.BadGzipFile\<close> is caught inside the loop; any other
  exception of the decompression reaches \<open>except Exception\<close> outside the loop.
\<close>

definition handle_client_iter_root ::
  "(bytes \<Rightarrow> py_exception + bytes) \<Rightarrow> bytes \<Rightarrow> bytes list \<Rightarrow> pass" where
  "handle_client_iter_root decompress reader q =
     (case readexactly 8 reader of
        Inl e \<Rightarrow> Closes (Exc e)
      | Inr (header, reader1) \<Rightarrow>
          if take 4 header \<noteq> signature then Closes InvalidSignature
          else
            let packet_length = unpack_I (drop 4 header)
            in (case readexactly packet_length reader1 of
                  Inl e \<Rightarrow> Closes (Exc e)
                | Inr (data, reader2) \<Rightarrow>
                    (case decompress data of
                       Inr decompressed \<Rightarrow>
                         (case data_queue_offer q decompressed of
                            Done q' \<Rightarrow> Continues reader2 q'
                          | Waits \<Rightarrow> Waiting)
                     | Inl e \<Rightarrow>
                         if e = BadGzipFile then Continues reader2 q else Closes (Exc e))))"

text \<open>
  The body of the inner \<open>try\<close> of the root-level \<open>process_data\<close> for one payload.
  \<open>page = 1 - buffer.page\<close> is negative when the page byte is 2 or more; the
  \<open>memset\<close> at \<open>byref(buffer, page * voxels_count)\<close> then starts before the structure,
  outside what this model covers, and the result is \<open>None\<close>. There is no test on the
  number of points: an empty payload reshapes to no rows and the body runs to the flip.
\<close>

definition process_data_frame_root :: "u8 \<Rightarrow> bytes \<Rightarrow> frame_run option" where
  "process_data_frame_root buffer_page data =
     (let page = 1 - uint buffer_page in
      if page < 0 then None
      else
        let cleared = [Fill (nat page)]
        in Some
          (case reshape4 data of
             Inl e \<Rightarrow> \<lparr>stores = cleared, outcome = Raised e, num_invalid = 0\<rparr>
           | Inr point_data \<Rightarrow>
               let kept = (if \<not> list_all valid_mask point_data
                           then filter valid_mask point_data else point_data)
               in \<lparr>stores = cleared @ map (put_point (nat page)) kept
                              @ [SetPage (word_of_int page)],
                   outcome = Flipped,
                   num_invalid = length (filter (\<lambda>p. \<not> valid_mask p) point_data)\<rparr>))"

definition process_data_body_root ::
  "voxel_double_buffer_t \<Rightarrow> bytes \<Rightarrow> voxel_double_buffer_t option" where
  "process_data_body_root buffer data =
     map_option (\<lambda>r. run_stores (stores r) buffer) (process_data_frame_root (page buffer) data)"

section \<open>The server: connections and the rasterizer thread\<close>

datatype conn = Open bytes | Closed close_reason

text \<open>
  The field \<open>frame_queue\<close> is the queue between the handlers and the rasterizer:
  \<open>frame_queue\<close> in \<open>update/\<close>, \<open>data_queue\<close> in the root-level revision.
\<close>

record server =
  conns :: "conn list"
  frame_queue :: "bytes list"
  shm :: voxel_double_buffer_t

definition apply_pass :: "nat \<Rightarrow> server \<Rightarrow> pass \<Rightarrow> server" where
  "apply_pass i s r =
     (case r of
        Closes c \<Rightarrow> s\<lparr>conns := (conns s)[i := Closed c]\<rparr>
      | Continues reader' q' \<Rightarrow> s\<lparr>conns := (conns s)[i := Open reader'], frame_queue := q'\<rparr>
      | Waiting \<Rightarrow> s)"

text \<open>
  The event loop runs one handler task per connection. A step of connection \<open>i\<close> is one
  pass of its handler's loop; a handler has only its own reader and the shared queue.
  Passes are taken one at a time, and a pass that takes \<open>queue_lock\<close> releases it before
  it ends, so every pass starts with the lock free.
\<close>

definition conn_step :: "(bytes \<Rightarrow> py_exception + bytes) \<Rightarrow> nat \<Rightarrow> server \<Rightarrow> server" where
  "conn_step decompress i s =
     (if i < length (conns s) then
        (case conns s ! i of
           Closed r \<Rightarrow> s
         | Open reader \<Rightarrow>
             apply_pass i s (handle_client_iter decompress False reader (frame_queue s)))
      else s)"

definition conn_step_root :: "(bytes \<Rightarrow> py_exception + bytes) \<Rightarrow> nat \<Rightarrow> server \<Rightarrow> server" where
  "conn_step_root decompress i s =
     (if i < length (conns s) then
        (case conns s ! i of
           Closed r \<Rightarrow> s
         | Open reader \<Rightarrow>
             apply_pass i s (handle_client_iter_root decompress reader (frame_queue s)))
      else s)"

text \<open>
  One pass of the loop of \<open>process_data\<close> in \<open>update/\<close>: nothing when the queue is
  empty.
\<close>

definition process_data_iter :: "server \<Rightarrow> server" where
  "process_data_iter s =
     (case frame_queue_poll False (frame_queue s) of
        Waits \<Rightarrow> s
      | Done (None, q) \<Rightarrow> s
      | Done (Some data, q) \<Rightarrow> s\<lparr>frame_queue := q, shm := process_data_body (shm s) data\<rparr>)"

text \<open>
  One pass of the loop of the root-level \<open>process_data\<close>: \<open>data_queue.get()\<close> waits on
  an empty queue.
\<close>

definition process_data_iter_root :: "server \<Rightarrow> server option" where
  "process_data_iter_root s =
     (case queue_get (frame_queue s) of
        Waits \<Rightarrow> Some s
      | Done (data, q) \<Rightarrow>
          map_option (\<lambda>b. s\<lparr>frame_queue := q, shm := b\<rparr>) (process_data_body_root (shm s) data))"

section \<open>Start-up\<close>

text \<open>
  The file \<open>/dev/shm/vortex_double_buffer\<close>: absent, or present with its size in bytes.
  \<open>os.open\<close> raises \<open>FileNotFoundError\<close> on an absent file; \<open>mmap.mmap\<close> raises
  \<open>ValueError\<close> when the requested length exceeds the size of the file.
\<close>

datatype shm_file = Absent | Region nat

definition os_open :: "shm_file \<Rightarrow> py_exception + nat" where
  "os_open f = (case f of Absent \<Rightarrow> Inl FileNotFoundError | Region file_size \<Rightarrow> Inr file_size)"

definition mmap_mmap :: "nat \<Rightarrow> nat \<Rightarrow> py_exception + unit" where
  "mmap_mmap file_size len = (if len > file_size then Inl ValueError else Inr ())"

text \<open>
  The start of \<open>process_data\<close>: both outer \<open>except\<close> clauses print a message and let the
  function return, which ends the thread; otherwise the thread enters its loop.
\<close>

datatype thread_state = Looping | Returned py_exception

definition process_data_start :: "shm_file \<Rightarrow> thread_state" where
  "process_data_start f =
     (case os_open f of
        Inl e \<Rightarrow> Returned e
      | Inr file_size \<Rightarrow>
          (case mmap_mmap file_size sizeof_voxel_double_buffer_t of
             Inl e \<Rightarrow> Returned e
           | Inr u \<Rightarrow> Looping))"

text \<open>
  \<open>main\<close> under the \<open>__main__\<close> block: the thread is started and not looked at again;
  \<open>asyncio.start_server\<close> raises \<open>OSError\<close> when the port cannot be bound, which the
  \<open>except Exception\<close> of the \<open>__main__\<close> block prints before the script runs off its end
  (exit status 0); otherwise the server serves forever.
\<close>

datatype process_state = Serving thread_state | Exited int

definition main :: "shm_file \<Rightarrow> bool \<Rightarrow> process_state" where
  "main f port_free =
     (let proc_thread = process_data_start f
      in if port_free then Serving proc_thread else Exited 0)"

section \<open>Facts about the rasterizer\<close>

lemma voxel_views_page:
  "p = 0 \<or> p = 1 \<Longrightarrow> voxel_views (1 - uint (p::u8)) = Inr (1 - unat p)"
  by (auto simp: voxel_views_def)




lemma filter_none_dropped:
  "length (filter (\<lambda>p. \<not> P p) xs) = 0 \<Longrightarrow> filter P xs = xs"
  by (induction xs) (auto split: if_splits)

lemma kept_is_filter:
  "(if length (filter (\<lambda>p. \<not> P p) xs) > 0 then filter P xs else xs) = filter P xs"
  using filter_none_dropped [of P xs] by simp

lemma scatter_is_map:
  "(if length kept > 0 then map f kept else []) = map f kept"
  by simp


lemma process_data_frame_skipped:
  "voxel_views (1 - uint p) = Inr v \<Longrightarrow> length data div 4 = 0 \<Longrightarrow>
   process_data_frame p data = \<lparr>stores = [Fill v], outcome = Skipped, num_invalid = 0\<rparr>"
  by (simp add: process_data_frame_def)


lemma process_data_frame_flipped:
  "voxel_views (1 - uint p) = Inr v \<Longrightarrow> length data div 4 \<noteq> 0 \<Longrightarrow> length data mod 4 = 0 \<Longrightarrow>
   process_data_frame p data =
     \<lparr>stores = Fill v # map (put_point v) (filter valid_mask (rows4 data))
                 @ [SetPage (word_of_int (1 - uint p))],
      outcome = Flipped,
      num_invalid = length (filter (\<lambda>q. \<not> valid_mask q) (rows4 data))\<rparr>"
  by (simp add: process_data_frame_def reshape4_def Let_def kept_is_filter
      del: length_greater_0_conv)




lemma store_page_unchanged:
  "\<not> is_set_page s \<Longrightarrow> page (store s b) = page b"
  by (cases s) auto

lemma run_stores_page_unchanged:
  "\<forall>s \<in> set ws. \<not> is_set_page s \<Longrightarrow> page (run_stores ws b) = page b"
  unfolding run_stores_def
  by (induction ws arbitrary: b) (auto simp: store_page_unchanged)

lemma put_point_not_set_page: "\<not> is_set_page (put_point v q)"
  by (cases q) simp

lemma put_point_is_put: "is_put (put_point v q)"
  by (cases q) simp


lemma page_addrs_disjoint: "p \<noteq> p' \<Longrightarrow> page_addrs p \<inter> page_addrs p' = {}"
proof -
  assume ne: "p \<noteq> p'"
  have *: "page_addrs a \<inter> page_addrs b = {}" if "a < b" for a b
  proof -
    from that have "Suc a \<le> b" by simp
    then have "Suc a * voxels_count \<le> b * voxels_count" by (rule mult_le_mono1)
    then show ?thesis by (auto simp: page_addrs_def)
  qed
  from ne have "p < p' \<or> p' < p" by auto
  then show ?thesis using * [of p p'] * [of p' p] by auto
qed











section \<open>Facts about the queues and the connection handlers\<close>

lemma frame_queue_append_single:
  "length q \<le> frame_queue_maxlen \<Longrightarrow> frame_queue_append q d = [d]"
  by (cases q) (auto simp: frame_queue_append_def deque_append_def frame_queue_maxlen_def)


lemma data_queue_offer_eq:
  "data_queue_offer q d = Done (if length q < data_queue_maxsize then q @ [d] else q)"
  by (auto simp: data_queue_offer_def queue_put_def queue_full_def data_queue_maxsize_def)





lemma handle_client_iter_short_header:
  "length reader < 8 \<Longrightarrow>
   handle_client_iter decompress lock_held reader q = Closes (Exc IncompleteReadError)"
  by (simp add: handle_client_iter_def readexactly_def)

lemma handle_client_iter_bad_signature:
  "8 \<le> length reader \<Longrightarrow> take 4 reader \<noteq> signature \<Longrightarrow>
   handle_client_iter decompress lock_held reader q = Closes InvalidSignature"
  by (simp add: handle_client_iter_def readexactly_def)

lemma handle_client_iter_too_large:
  "8 \<le> length reader \<Longrightarrow> take 4 reader = signature \<Longrightarrow>
   max_packet_length < unpack_I (take 4 (drop 4 reader)) \<Longrightarrow>
   handle_client_iter decompress lock_held reader q = Closes PacketTooLarge"
  by (simp add: handle_client_iter_def readexactly_def drop_take)

lemma handle_client_iter_short_payload:
  "8 \<le> length reader \<Longrightarrow> take 4 reader = signature \<Longrightarrow>
   unpack_I (take 4 (drop 4 reader)) \<le> max_packet_length \<Longrightarrow>
   length reader < 8 + unpack_I (take 4 (drop 4 reader)) \<Longrightarrow>
   handle_client_iter decompress lock_held reader q = Closes (Exc IncompleteReadError)"
  by (auto simp: handle_client_iter_def readexactly_def drop_take Let_def)

lemma handle_client_iter_frame:
  "take 4 reader = signature \<Longrightarrow> unpack_I (take 4 (drop 4 reader)) = L \<Longrightarrow>
   L \<le> max_packet_length \<Longrightarrow> 8 + L \<le> length reader \<Longrightarrow>
   handle_client_iter decompress lock_held reader q =
     (case decompress (take L (drop 8 reader)) of
        Inr decompressed \<Rightarrow>
          (if lock_held then Waiting
           else Continues (drop L (drop 8 reader)) (frame_queue_append q decompressed))
      | Inl e \<Rightarrow> Continues (drop L (drop 8 reader)) q)"
  by (auto simp: handle_client_iter_def readexactly_def drop_take Let_def frame_queue_offer_def
      split: sum.splits simp del: drop_drop)

lemma handle_client_iter_root_short_header:
  "length reader < 8 \<Longrightarrow>
   handle_client_iter_root decompress reader q = Closes (Exc IncompleteReadError)"
  by (simp add: handle_client_iter_root_def readexactly_def)

lemma handle_client_iter_root_bad_signature:
  "8 \<le> length reader \<Longrightarrow> take 4 reader \<noteq> signature \<Longrightarrow>
   handle_client_iter_root decompress reader q = Closes InvalidSignature"
  by (simp add: handle_client_iter_root_def readexactly_def)

lemma handle_client_iter_root_short_payload:
  "8 \<le> length reader \<Longrightarrow> take 4 reader = signature \<Longrightarrow>
   length reader < 8 + unpack_I (take 4 (drop 4 reader)) \<Longrightarrow>
   handle_client_iter_root decompress reader q = Closes (Exc IncompleteReadError)"
  by (auto simp: handle_client_iter_root_def readexactly_def drop_take Let_def)

lemma handle_client_iter_root_frame:
  "take 4 reader = signature \<Longrightarrow> unpack_I (take 4 (drop 4 reader)) = L \<Longrightarrow>
   8 + L \<le> length reader \<Longrightarrow>
   handle_client_iter_root decompress reader q =
     (case decompress (take L (drop 8 reader)) of
        Inr decompressed \<Rightarrow>
          Continues (drop L (drop 8 reader))
            (if length q < data_queue_maxsize then q @ [decompressed] else q)
      | Inl e \<Rightarrow>
          if e = BadGzipFile then Continues (drop L (drop 8 reader)) q else Closes (Exc e))"
  by (auto simp: handle_client_iter_root_def readexactly_def drop_take Let_def
      data_queue_offer_eq split: sum.splits simp del: drop_drop)

lemma conn_step_open:
  "i < length (conns s) \<Longrightarrow> conns s ! i = Open reader \<Longrightarrow>
   conn_step decompress i s =
     apply_pass i s (handle_client_iter decompress False reader (frame_queue s))"
  by (simp add: conn_step_def)

lemma conn_step_root_open:
  "i < length (conns s) \<Longrightarrow> conns s ! i = Open reader \<Longrightarrow>
   conn_step_root decompress i s =
     apply_pass i s (handle_client_iter_root decompress reader (frame_queue s))"
  by (simp add: conn_step_root_def)

lemma conn_step_after_close:
  assumes ji: "j \<noteq> i"
  shows "conns (conn_step decompress j (s\<lparr>conns := (conns s)[i := c]\<rparr>)) ! j =
           conns (conn_step decompress j s) ! j \<and>
         frame_queue (conn_step decompress j (s\<lparr>conns := (conns s)[i := c]\<rparr>)) =
           frame_queue (conn_step decompress j s) \<and>
         shm (conn_step decompress j (s\<lparr>conns := (conns s)[i := c]\<rparr>)) =
           shm (conn_step decompress j s)"
  using ji by (auto simp: conn_step_def apply_pass_def split: conn.splits pass.splits)

lemma conn_step_root_after_close:
  assumes ji: "j \<noteq> i"
  shows "conns (conn_step_root decompress j (s\<lparr>conns := (conns s)[i := c]\<rparr>)) ! j =
           conns (conn_step_root decompress j s) ! j \<and>
         frame_queue (conn_step_root decompress j (s\<lparr>conns := (conns s)[i := c]\<rparr>)) =
           frame_queue (conn_step_root decompress j s) \<and>
         shm (conn_step_root decompress j (s\<lparr>conns := (conns s)[i := c]\<rparr>)) =
           shm (conn_step_root decompress j s)"
  using ji by (auto simp: conn_step_root_def apply_pass_def split: conn.splits pass.splits)

lemma process_data_iter_single:
  "frame_queue s = [data] \<Longrightarrow>
   process_data_iter s = s\<lparr>frame_queue := [], shm := process_data_body (shm s) data\<rparr>"
  by (simp add: process_data_iter_def frame_queue_poll_def frame_queue_take_def)




text \<open>
  C7, as the claim states it, fails on the handler of the root-level revision: a header
  with the signature and the length field 10,000,001, followed by that many payload
  bytes, does not close the connection; the payload is read and decompressed, its result
  is put into the queue, and the connection stays open.
\<close>

theorem oversize_frame_accepted_root_counterexample:
  "conns (conn_step_root (\<lambda>c. Inr []) 0
      \<lparr>conns = [Open ([0xFF, 0xFF, 0xFF, 0xFF, 0x00, 0x98, 0x96, 0x81] @ replicate 10000001 0)],
        frame_queue = [],
        shm = \<lparr>buffers = (\<lambda>a. 7), page = 0, bpc = 3, flags = 0, rpm = 0, uspf = 0\<rparr>\<rparr>) ! 0
     = Open []"
  by (simp add: conn_step_root_def handle_client_iter_root_def readexactly_def signature_def
      unpack_I_def apply_pass_def data_queue_offer_def queue_put_def queue_full_def
      data_queue_maxsize_def)

text \<open>
  C7, amended. In \<open>update/\<close>, a pass of the handler of connection \<open>i\<close> whose stream
  shows one of the three protocol errors (eight header bytes whose first four differ from
  the signature; a header with the signature whose length field exceeds 10,000,000,
  whether or not any payload byte follows; a stream that ends before the eight header
  bytes or before the announced payload bytes) closes connection \<open>i\<close> with the matching
  reason, and a closed connection stays closed; every other connection, the queue and
  the shared region are unchanged, and a later pass of any other connection gives that
  connection and the queue what it would have given them without the error. In the
  root-level revision the same holds for the wrong signature and for the stream that
  ends early, but there is no limit on the length field: a frame whose length field
  exceeds 10,000,000 and whose payload bytes all arrive is read like any other frame and
  leaves the connection open.
\<close>

theorem protocol_errors_per_revision:
  assumes i: "i < length (conns s)" and op: "conns s ! i = Open reader"
  shows "((8 \<le> length reader \<and> take 4 reader \<noteq> signature) \<or>
          (8 \<le> length reader \<and> take 4 reader = signature \<and>
             max_packet_length < unpack_I (take 4 (drop 4 reader))) \<or>
          (length reader < 8 \<or>
             (take 4 reader = signature \<and>
              unpack_I (take 4 (drop 4 reader)) \<le> max_packet_length \<and>
              length reader < 8 + unpack_I (take 4 (drop 4 reader)))) \<longrightarrow>
          (let s' = conn_step decompress i s
           in conns s' ! i =
                Closed (if length reader < 8 then Exc IncompleteReadError
                        else if take 4 reader \<noteq> signature then InvalidSignature
                        else if max_packet_length < unpack_I (take 4 (drop 4 reader))
                        then PacketTooLarge
                        else Exc IncompleteReadError) \<and>
              conn_step decompress i s' = s' \<and>
              length (conns s') = length (conns s) \<and>
              (\<forall>j. j \<noteq> i \<longrightarrow> conns s' ! j = conns s ! j) \<and>
              frame_queue s' = frame_queue s \<and> shm s' = shm s \<and>
              (\<forall>j. j \<noteq> i \<longrightarrow>
                 conns (conn_step decompress j s') ! j = conns (conn_step decompress j s) ! j \<and>
                 frame_queue (conn_step decompress j s') = frame_queue (conn_step decompress j s) \<and>
                 shm (conn_step decompress j s') = shm (conn_step decompress j s)))) \<and>
         ((8 \<le> length reader \<and> take 4 reader \<noteq> signature) \<or>
          (length reader < 8 \<or>
             (take 4 reader = signature \<and>
              length reader < 8 + unpack_I (take 4 (drop 4 reader)))) \<longrightarrow>
          (let r' = conn_step_root decompress i s
           in conns r' ! i =
                Closed (if length reader < 8 then Exc IncompleteReadError
                        else if take 4 reader \<noteq> signature then InvalidSignature
                        else Exc IncompleteReadError) \<and>
              conn_step_root decompress i r' = r' \<and>
              length (conns r') = length (conns s) \<and>
              (\<forall>j. j \<noteq> i \<longrightarrow> conns r' ! j = conns s ! j) \<and>
              frame_queue r' = frame_queue s \<and> shm r' = shm s \<and>
              (\<forall>j. j \<noteq> i \<longrightarrow>
                 conns (conn_step_root decompress j r') ! j =
                   conns (conn_step_root decompress j s) ! j \<and>
                 frame_queue (conn_step_root decompress j r') =
                   frame_queue (conn_step_root decompress j s) \<and>
                 shm (conn_step_root decompress j r') = shm (conn_step_root decompress j s)))) \<and>
         (\<forall>data.
            take 4 reader = signature \<and>
            max_packet_length < unpack_I (take 4 (drop 4 reader)) \<and>
            8 + unpack_I (take 4 (drop 4 reader)) \<le> length reader \<and>
            decompress (take (unpack_I (take 4 (drop 4 reader))) (drop 8 reader)) = Inr data \<longrightarrow>
            (let r' = conn_step_root decompress i s
             in conns r' ! i = Open (drop (unpack_I (take 4 (drop 4 reader))) (drop 8 reader)) \<and>
                frame_queue r' =
                  (if length (frame_queue s) < data_queue_maxsize
                   then frame_queue s @ [data] else frame_queue s)))"
proof -
  let ?L = "unpack_I (take 4 (drop 4 reader))"
  let ?r = "if length reader < 8 then Exc IncompleteReadError
            else if take 4 reader \<noteq> signature then InvalidSignature
            else if max_packet_length < ?L then PacketTooLarge
            else Exc IncompleteReadError"
  let ?rr = "if length reader < 8 then Exc IncompleteReadError
             else if take 4 reader \<noteq> signature then InvalidSignature
             else Exc IncompleteReadError"
  have upd: "conns (conn_step decompress i s) ! i = Closed ?r \<and>
      conn_step decompress i (conn_step decompress i s) = conn_step decompress i s \<and>
      length (conns (conn_step decompress i s)) = length (conns s) \<and>
      (\<forall>j. j \<noteq> i \<longrightarrow> conns (conn_step decompress i s) ! j = conns s ! j) \<and>
      frame_queue (conn_step decompress i s) = frame_queue s \<and>
      shm (conn_step decompress i s) = shm s \<and>
      (\<forall>j. j \<noteq> i \<longrightarrow>
         conns (conn_step decompress j (conn_step decompress i s)) ! j =
           conns (conn_step decompress j s) ! j \<and>
         frame_queue (conn_step decompress j (conn_step decompress i s)) =
           frame_queue (conn_step decompress j s) \<and>
         shm (conn_step decompress j (conn_step decompress i s)) =
           shm (conn_step decompress j s))"
    if err: "(8 \<le> length reader \<and> take 4 reader \<noteq> signature) \<or>
             (8 \<le> length reader \<and> take 4 reader = signature \<and> max_packet_length < ?L) \<or>
             (length reader < 8 \<or>
                (take 4 reader = signature \<and> ?L \<le> max_packet_length \<and> length reader < 8 + ?L))"
  proof -
    have it: "handle_client_iter decompress False reader (frame_queue s) = Closes ?r"
    proof (cases "length reader < 8")
      case True
      then show ?thesis by (simp add: handle_client_iter_short_header)
    next
      case long: False
      show ?thesis
      proof (cases "take 4 reader = signature")
        case False
        with long show ?thesis by (simp add: handle_client_iter_bad_signature)
      next
        case sg: True
        show ?thesis
        proof (cases "max_packet_length < ?L")
          case True
          with long sg show ?thesis by (simp add: handle_client_iter_too_large)
        next
          case False
          with long sg err show ?thesis by (simp add: handle_client_iter_short_payload)
        qed
      qed
    qed
    have s': "conn_step decompress i s = s\<lparr>conns := (conns s)[i := Closed ?r]\<rparr>"
      using conn_step_open [OF i op, of decompress] it by (simp add: apply_pass_def)
    have again: "conn_step decompress i (s\<lparr>conns := (conns s)[i := Closed ?r]\<rparr>) =
        s\<lparr>conns := (conns s)[i := Closed ?r]\<rparr>"
      using i by (simp add: conn_step_def)
    show ?thesis
      unfolding s'
      using i again conn_step_after_close [of _ i decompress s "Closed ?r"]
      by simp
  qed
  have root: "conns (conn_step_root decompress i s) ! i = Closed ?rr \<and>
      conn_step_root decompress i (conn_step_root decompress i s) = conn_step_root decompress i s \<and>
      length (conns (conn_step_root decompress i s)) = length (conns s) \<and>
      (\<forall>j. j \<noteq> i \<longrightarrow> conns (conn_step_root decompress i s) ! j = conns s ! j) \<and>
      frame_queue (conn_step_root decompress i s) = frame_queue s \<and>
      shm (conn_step_root decompress i s) = shm s \<and>
      (\<forall>j. j \<noteq> i \<longrightarrow>
         conns (conn_step_root decompress j (conn_step_root decompress i s)) ! j =
           conns (conn_step_root decompress j s) ! j \<and>
         frame_queue (conn_step_root decompress j (conn_step_root decompress i s)) =
           frame_queue (conn_step_root decompress j s) \<and>
         shm (conn_step_root decompress j (conn_step_root decompress i s)) =
           shm (conn_step_root decompress j s))"
    if err: "(8 \<le> length reader \<and> take 4 reader \<noteq> signature) \<or>
             (length reader < 8 \<or> (take 4 reader = signature \<and> length reader < 8 + ?L))"
  proof -
    have it: "handle_client_iter_root decompress reader (frame_queue s) = Closes ?rr"
    proof (cases "length reader < 8")
      case True
      then show ?thesis by (simp add: handle_client_iter_root_short_header)
    next
      case long: False
      show ?thesis
      proof (cases "take 4 reader = signature")
        case False
        with long show ?thesis by (simp add: handle_client_iter_root_bad_signature)
      next
        case True
        with long err show ?thesis by (simp add: handle_client_iter_root_short_payload)
      qed
    qed
    have s': "conn_step_root decompress i s = s\<lparr>conns := (conns s)[i := Closed ?rr]\<rparr>"
      using conn_step_root_open [OF i op, of decompress] it by (simp add: apply_pass_def)
    have again: "conn_step_root decompress i (s\<lparr>conns := (conns s)[i := Closed ?rr]\<rparr>) =
        s\<lparr>conns := (conns s)[i := Closed ?rr]\<rparr>"
      using i by (simp add: conn_step_root_def)
    show ?thesis
      unfolding s'
      using i again conn_step_root_after_close [of _ i decompress s "Closed ?rr"]
      by simp
  qed
  have over: "conns (conn_step_root decompress i s) ! i = Open (drop ?L (drop 8 reader)) \<and>
      frame_queue (conn_step_root decompress i s) =
        (if length (frame_queue s) < data_queue_maxsize
         then frame_queue s @ [data] else frame_queue s)"
    if sg: "take 4 reader = signature" and ln: "8 + ?L \<le> length reader"
      and good: "decompress (take ?L (drop 8 reader)) = Inr data"
    for data
  proof -
    have it: "handle_client_iter_root decompress reader (frame_queue s) =
        Continues (drop ?L (drop 8 reader))
          (if length (frame_queue s) < data_queue_maxsize
           then frame_queue s @ [data] else frame_queue s)"
      using handle_client_iter_root_frame [OF sg refl ln, of decompress "frame_queue s"] good
      by simp
    show ?thesis
      using conn_step_root_open [OF i op, of decompress] it i by (simp add: apply_pass_def)
  qed
  show ?thesis unfolding Let_def using upd root over by blast
qed

theorem protocol_errors_per_revision_witness:
  "let gz = (\<lambda>c :: bytes. Inr c :: py_exception + bytes);
       b = \<lparr>buffers = (\<lambda>a. 7), page = 0, bpc = 3, flags = 0, rpm = 0, uspf = 0\<rparr>;
       other = Open [0xFF, 0xFF, 0xFF, 0xFF, 0, 0, 0, 4, 64, 64, 32, 0xFF];
       wrong = [0xFF, 0xFF, 0xFF, 0xFE, 0, 0, 0, 0];
       huge = [0xFF, 0xFF, 0xFF, 0xFF, 0x00, 0x98, 0x96, 0x81];
       short = [0xFF, 0xFF, 0xFF, 0xFF, 0, 0, 0, 4, 1, 2]
   in take 4 wrong \<noteq> signature \<and>
      unpack_I (take 4 (drop 4 huge)) = 10000001 \<and>
      length short < 8 + unpack_I (take 4 (drop 4 short)) \<and>
      conns (conn_step gz 0 \<lparr>conns = [Open wrong, other], frame_queue = [], shm = b\<rparr>)
        = [Closed InvalidSignature, other] \<and>
      conns (conn_step gz 0 \<lparr>conns = [Open huge, other], frame_queue = [], shm = b\<rparr>)
        = [Closed PacketTooLarge, other] \<and>
      conns (conn_step gz 0 \<lparr>conns = [Open short, other], frame_queue = [], shm = b\<rparr>)
        = [Closed (Exc IncompleteReadError), other] \<and>
      frame_queue (conn_step gz 1
          (conn_step gz 0 \<lparr>conns = [Open wrong, other], frame_queue = [], shm = b\<rparr>))
        = [[64, 64, 32, 0xFF]] \<and>
      conns (conn_step_root gz 0 \<lparr>conns = [Open wrong, other], frame_queue = [], shm = b\<rparr>)
        = [Closed InvalidSignature, other] \<and>
      conns (conn_step_root gz 0 \<lparr>conns = [Open short, other], frame_queue = [], shm = b\<rparr>)
        = [Closed (Exc IncompleteReadError), other] \<and>
      conns (conn_step_root gz 0
          \<lparr>conns = [Open (huge @ replicate 10000001 0), other], frame_queue = [], shm = b\<rparr>) ! 0
        = Open []"
  using protocol_errors_per_revision
    [of 0 "\<lparr>conns = [Open [0xFF, 0xFF, 0xFF, 0xFE, 0, 0, 0, 0],
                      Open [0xFF, 0xFF, 0xFF, 0xFF, 0, 0, 0, 4, 64, 64, 32, 0xFF]],
             frame_queue = [],
             shm = \<lparr>buffers = (\<lambda>a. 7), page = 0, bpc = 3, flags = 0, rpm = 0, uspf = 0\<rparr>\<rparr>"
        "[0xFF, 0xFF, 0xFF, 0xFE, 0, 0, 0, 0]" "\<lambda>c :: bytes. Inr c"]
    protocol_errors_per_revision
    [of 0 "\<lparr>conns = [Open [0xFF, 0xFF, 0xFF, 0xFF, 0x00, 0x98, 0x96, 0x81],
                      Open [0xFF, 0xFF, 0xFF, 0xFF, 0, 0, 0, 4, 64, 64, 32, 0xFF]],
             frame_queue = [],
             shm = \<lparr>buffers = (\<lambda>a. 7), page = 0, bpc = 3, flags = 0, rpm = 0, uspf = 0\<rparr>\<rparr>"
        "[0xFF, 0xFF, 0xFF, 0xFF, 0x00, 0x98, 0x96, 0x81]" "\<lambda>c :: bytes. Inr c"]
    protocol_errors_per_revision
    [of 0 "\<lparr>conns = [Open [0xFF, 0xFF, 0xFF, 0xFF, 0, 0, 0, 4, 1, 2],
                      Open [0xFF, 0xFF, 0xFF, 0xFF, 0, 0, 0, 4, 64, 64, 32, 0xFF]],
             frame_queue = [],
             shm = \<lparr>buffers = (\<lambda>a. 7), page = 0, bpc = 3, flags = 0, rpm = 0, uspf = 0\<rparr>\<rparr>"
        "[0xFF, 0xFF, 0xFF, 0xFF, 0, 0, 0, 4, 1, 2]" "\<lambda>c :: bytes. Inr c"]
    protocol_errors_per_revision
    [of 0 "\<lparr>conns = [Open ([0xFF, 0xFF, 0xFF, 0xFF, 0x00, 0x98, 0x96, 0x81]
                             @ replicate 10000001 0),
                      Open [0xFF, 0xFF, 0xFF, 0xFF, 0, 0, 0, 4, 64, 64, 32, 0xFF]],
             frame_queue = [],
             shm = \<lparr>buffers = (\<lambda>a. 7), page = 0, bpc = 3, flags = 0, rpm = 0, uspf = 0\<rparr>\<rparr>"
        "[0xFF, 0xFF, 0xFF, 0xFF, 0x00, 0x98, 0x96, 0x81] @ replicate 10000001 0"
        "\<lambda>c :: bytes. Inr c"]
  by (simp add: Let_def signature_def unpack_I_def max_packet_length_def conn_step_def
      conn_step_root_def handle_client_iter_def handle_client_iter_root_def readexactly_def
      frame_queue_offer_def frame_queue_append_def deque_append_def frame_queue_maxlen_def
      apply_pass_def data_queue_offer_def queue_put_def queue_full_def data_queue_maxsize_def)

lemma process_data_frame_root_page:
  "p = 0 \<or> p = 1 \<Longrightarrow> length data mod 4 = 0 \<Longrightarrow>
   process_data_frame_root p data =
     Some \<lparr>stores = Fill (1 - unat p) # map (put_point (1 - unat p)) (filter valid_mask (rows4 data))
                    @ [SetPage (of_nat (1 - unat p))],
           outcome = Flipped,
           num_invalid = length (filter (\<lambda>q. \<not> valid_mask q) (rows4 data))\<rparr>"
proof -
  assume pg: "p = 0 \<or> p = 1" and m4: "length data mod 4 = 0"
  have kept: "(if \<not> list_all valid_mask xs then filter valid_mask xs else xs) = filter valid_mask xs"
    for xs by (auto simp: list_all_iff filter_id_conv)
  from pg show ?thesis
    by (auto simp: process_data_frame_root_def reshape4_def m4 Let_def kept)
qed

text \<open>
  C8, as the claim states it, fails on \<open>update/\<close>: with the page byte at 0, the
  rasterizer takes an empty payload, and afterwards the page byte is not 1, the index of
  the page it cleared.
\<close>

theorem empty_payload_flip_counterexample:
  "page (process_data_body
      \<lparr>buffers = (\<lambda>a. 7), page = 0, bpc = 3, flags = 0, rpm = 0, uspf = 0\<rparr> []) \<noteq> 1"
  by (simp add: process_data_body_def process_data_frame_def voxel_views_def run_stores_def)

text \<open>
  C8, amended. A frame with the signature and length field 0, where \<open>gzip.decompress\<close>
  returns the empty payload for the empty input: in both revisions the pass of the
  handler offers the empty payload to the queue. On taking it with the page byte at 0 or
  1, the rasterizer of either revision clears the idle page to all zeros and leaves the
  page named by the page byte untouched. The rasterizer of the root-level revision then
  flips the page byte to the page it cleared, as the claim says. The rasterizer of
  \<open>update/\<close> ends the frame at its \<open>continue\<close> instead: it does not flip, and the page
  byte keeps its value.
\<close>

theorem empty_payload_per_revision:
  assumes sg: "take 4 reader = signature" and len: "8 \<le> length reader"
    and L: "unpack_I (take 4 (drop 4 reader)) = 0"
    and gz: "decompress [] = Inr []"
    and pg: "page b = 0 \<or> page b = 1"
  shows "handle_client_iter decompress False reader q =
           Continues (drop 8 reader) (frame_queue_append q []) \<and>
         handle_client_iter_root decompress reader q =
           Continues (drop 8 reader) (if length q < data_queue_maxsize then q @ [[]] else q) \<and>
         (let s = \<lparr>conns = cs, frame_queue = [[]], shm = b\<rparr>;
              b' = shm (process_data_iter s)
          in outcome (process_data_frame (page b) []) = Skipped \<and>
             frame_queue (process_data_iter s) = [] \<and>
             (\<forall>a \<in> page_addrs (1 - unat (page b)). buffers b' a = 0) \<and>
             (\<forall>a \<in> page_addrs (unat (page b)). buffers b' a = buffers b a) \<and>
             page b' = page b) \<and>
         (\<exists>r s'. process_data_frame_root (page b) [] = Some r \<and> outcome r = Flipped \<and>
            process_data_iter_root \<lparr>conns = cs, frame_queue = [[]], shm = b\<rparr> = Some s' \<and>
            frame_queue s' = [] \<and>
            (\<forall>a \<in> page_addrs (1 - unat (page b)). buffers (shm s') a = 0) \<and>
            (\<forall>a \<in> page_addrs (unat (page b)). buffers (shm s') a = buffers b a) \<and>
            page (shm s') = of_nat (1 - unat (page b)))"
proof -
  let ?w = "1 - unat (page b)"
  have ne: "?w \<noteq> unat (page b)" using pg by auto
  have other: "a \<notin> page_addrs ?w" if "a \<in> page_addrs (unat (page b))" for a
    using page_addrs_disjoint [OF ne] that by blast
  have h1: "handle_client_iter decompress False reader q =
      Continues (drop 8 reader) (frame_queue_append q [])"
    using handle_client_iter_frame [OF sg L, of decompress False q] len gz by simp
  have h2: "handle_client_iter_root decompress reader q =
      Continues (drop 8 reader) (if length q < data_queue_maxsize then q @ [[]] else q)"
    using handle_client_iter_root_frame [OF sg L, of decompress q] len gz by simp
  have run: "process_data_frame (page b) [] =
      \<lparr>stores = [Fill ?w], outcome = Skipped, num_invalid = 0\<rparr>"
    using process_data_frame_skipped [OF voxel_views_page [OF pg], of "[]"] by simp
  have it: "process_data_iter \<lparr>conns = cs, frame_queue = [[]], shm = b\<rparr> =
      \<lparr>conns = cs, frame_queue = [], shm = process_data_body b []\<rparr>"
    by (simp add: process_data_iter_single)
  have u1: "buffers (process_data_body b []) a = 0" if "a \<in> page_addrs ?w" for a
    using that by (auto simp: process_data_body_def run run_stores_def page_addrs_def)
  have u2: "buffers (process_data_body b []) a = buffers b a"
    if "a \<in> page_addrs (unat (page b))" for a
    using other [OF that] by (auto simp: process_data_body_def run run_stores_def page_addrs_def)
  have u3: "page (process_data_body b []) = page b"
    by (simp add: process_data_body_def run run_stores_def)
  have upd: "outcome (process_data_frame (page b) []) = Skipped \<and>
      frame_queue (process_data_iter \<lparr>conns = cs, frame_queue = [[]], shm = b\<rparr>) = [] \<and>
      (\<forall>a \<in> page_addrs ?w.
          buffers (shm (process_data_iter \<lparr>conns = cs, frame_queue = [[]], shm = b\<rparr>)) a = 0) \<and>
      (\<forall>a \<in> page_addrs (unat (page b)).
          buffers (shm (process_data_iter \<lparr>conns = cs, frame_queue = [[]], shm = b\<rparr>)) a
            = buffers b a) \<and>
      page (shm (process_data_iter \<lparr>conns = cs, frame_queue = [[]], shm = b\<rparr>)) = page b"
    unfolding it using run u1 u2 u3 by simp
  let ?r = "\<lparr>stores = [Fill ?w, SetPage (of_nat ?w)], outcome = Flipped, num_invalid = 0\<rparr>"
  let ?b' = "run_stores [Fill ?w, SetPage (of_nat ?w)] b"
  have rrun: "process_data_frame_root (page b) [] = Some ?r"
    using process_data_frame_root_page [OF pg, of "[]"] by simp
  have rit: "process_data_iter_root \<lparr>conns = cs, frame_queue = [[]], shm = b\<rparr> =
      Some \<lparr>conns = cs, frame_queue = [], shm = ?b'\<rparr>"
    by (simp add: process_data_iter_root_def queue_get_def process_data_body_root_def rrun)
  have r1: "buffers ?b' a = 0" if "a \<in> page_addrs ?w" for a
    using that by (auto simp: run_stores_def page_addrs_def)
  have r2: "buffers ?b' a = buffers b a" if "a \<in> page_addrs (unat (page b))" for a
    using other [OF that] by (auto simp: run_stores_def page_addrs_def)
  have r3: "page ?b' = of_nat ?w" by (simp add: run_stores_def)
  have root: "\<exists>r s'. process_data_frame_root (page b) [] = Some r \<and> outcome r = Flipped \<and>
      process_data_iter_root \<lparr>conns = cs, frame_queue = [[]], shm = b\<rparr> = Some s' \<and>
      frame_queue s' = [] \<and>
      (\<forall>a \<in> page_addrs ?w. buffers (shm s') a = 0) \<and>
      (\<forall>a \<in> page_addrs (unat (page b)). buffers (shm s') a = buffers b a) \<and>
      page (shm s') = of_nat ?w"
    using rrun rit r1 r2 r3 by simp
  show ?thesis unfolding Let_def using h1 h2 upd root by blast
qed

theorem empty_payload_per_revision_witness:
  "let gz = (\<lambda>c :: bytes. Inr c :: py_exception + bytes);
       b = \<lparr>buffers = (\<lambda>a. 7), page = 0, bpc = 3, flags = 0, rpm = 0, uspf = 0\<rparr>;
       s = \<lparr>conns = [], frame_queue = [[]], shm = b\<rparr>;
       b' = shm (process_data_iter s)
   in take 4 [0xFF, 0xFF, 0xFF, 0xFF, 0, 0, 0, 0 :: u8] = signature \<and>
      unpack_I (take 4 (drop 4 [0xFF, 0xFF, 0xFF, 0xFF, 0, 0, 0, 0])) = 0 \<and>
      gz [] = Inr [] \<and>
      handle_client_iter gz False [0xFF, 0xFF, 0xFF, 0xFF, 0, 0, 0, 0] [] = Continues [] [[]] \<and>
      handle_client_iter_root gz [0xFF, 0xFF, 0xFF, 0xFF, 0, 0, 0, 0] [] = Continues [] [[]] \<and>
      outcome (process_data_frame (page b) []) = Skipped \<and>
      (\<forall>a \<in> page_addrs 1. buffers b' a = 0) \<and>
      (\<forall>a \<in> page_addrs 0. buffers b' a = 7) \<and>
      page b' = 0 \<and>
      (\<exists>s'. process_data_iter_root s = Some s' \<and>
         (\<forall>a \<in> page_addrs 1. buffers (shm s') a = 0) \<and>
         (\<forall>a \<in> page_addrs 0. buffers (shm s') a = 7) \<and>
         page (shm s') = 1)"
  using empty_payload_per_revision
    [of "[0xFF, 0xFF, 0xFF, 0xFF, 0, 0, 0, 0]" "\<lambda>c :: bytes. Inr c"
        "\<lparr>buffers = (\<lambda>a. 7), page = 0, bpc = 3, flags = 0, rpm = 0, uspf = 0\<rparr>" "[]" "[]"]
  by (simp add: Let_def signature_def unpack_I_def frame_queue_append_def deque_append_def
      frame_queue_maxlen_def data_queue_maxsize_def) blast

text \<open>
  C9, as the claim states it, fails: with the region file absent, or present but smaller
  than the structure, and the port free, the thread returns at once and the process is
  serving connections; it has not exited.
\<close>

theorem missing_region_still_serving_counterexample:
  "main Absent True = Serving (Returned FileNotFoundError) \<and>
   main (Region 100) True = Serving (Returned ValueError)"
  by (simp add: main_def process_data_start_def os_open_def mmap_mmap_def
      sizeof_voxel_double_buffer_t_def voxels_count_def voxels_x_def voxels_y_def voxels_z_def)

text \<open>
  C9, amended. When the region file is absent or smaller than the structure, the
  rasterizer thread ends at start-up with the exception reported and never enters its
  loop; the process does not exit on that account: with the port free it serves
  connections, and the only exit of the start-up path (the port cannot be bound) has
  status 0.
\<close>

theorem startup_failure_ends_thread_only:
  assumes "f = Absent \<or> (\<exists>n. f = Region n \<and> n < sizeof_voxel_double_buffer_t)"
  shows "process_data_start f =
           Returned (if f = Absent then FileNotFoundError else ValueError) \<and>
         main f True = Serving (process_data_start f) \<and>
         (\<forall>port_free c. main f port_free = Exited c \<longrightarrow> c = 0)"
  using assms
  by (auto simp: main_def process_data_start_def os_open_def mmap_mmap_def Let_def
      split: if_splits)

theorem startup_failure_ends_thread_only_witness:
  "(100 :: nat) < sizeof_voxel_double_buffer_t \<and>
   process_data_start (Region 100) = Returned ValueError \<and>
   main (Region 100) True = Serving (Returned ValueError) \<and>
   process_data_start Absent = Returned FileNotFoundError \<and>
   main Absent True = Serving (Returned FileNotFoundError) \<and>
   main Absent False = Exited 0"
proof -
  have small: "(100 :: nat) < sizeof_voxel_double_buffer_t"
    by (simp add: sizeof_voxel_double_buffer_t_def voxels_count_def voxels_x_def voxels_y_def
        voxels_z_def)
  then have r: "Region 100 = Absent \<or> (\<exists>n. Region 100 = Region n \<and> n < sizeof_voxel_double_buffer_t)"
    by simp
  have a: "Absent = Absent \<or> (\<exists>n. Absent = Region n \<and> n < sizeof_voxel_double_buffer_t)"
    by simp
  have exit0: "main Absent False = Exited 0" by (simp add: main_def)
  from startup_failure_ends_thread_only [OF r] startup_failure_ends_thread_only [OF a] small exit0
  show ?thesis by simp
qed

lemma put_point_cell: "put_point v q = Put v (fst (point_cell q)) (snd (point_cell q))"
  by (cases q) (simp add: point_cell_def)

lemma run_stores_snoc: "run_stores (ws @ [w]) b = store w (run_stores ws b)"
  by (simp add: run_stores_def)

lemma run_puts:
  "buffers (run_stores (map (put_point v) ps) b) (v * voxels_count + i) =
     (case map_of (rev (map point_cell ps)) i of
        None \<Rightarrow> buffers b (v * voxels_count + i)
      | Some c \<Rightarrow> c)"
proof (induction ps rule: rev_induct)
  case Nil
  then show ?case by (simp add: run_stores_def)
next
  case (snoc p ps)
  obtain j c where pc: "point_cell p = (j, c)" by (cases "point_cell p")
  have "run_stores (map (put_point v) (ps @ [p])) b =
      store (Put v j c) (run_stores (map (put_point v) ps) b)"
    by (simp add: run_stores_snoc put_point_cell pc)
  then show ?case using snoc.IH by (simp add: pc)
qed

lemma run_puts_page:
  "page (run_stores (map (put_point v) ps) b) = page b"
  by (rule run_stores_page_unchanged) (auto simp: put_point_not_set_page)

lemma rows4_length: "length (rows4 xs) = length xs div 4"
  by (induction xs rule: rows4.induct) simp_all

text \<open>
  C10, as the claim states it, fails: the empty payload has a length that is a multiple of
  4, and the rasterizer drops it on its point count, at \<open>if num_points == 0: continue\<close>,
  after the clearing and without the store to the page byte.
\<close>

theorem empty_payload_rejected_by_count_counterexample:
  "length ([] :: bytes) mod 4 = 0 \<and>
   process_data_frame 0 [] = \<lparr>stores = [Fill 1], outcome = Skipped, num_invalid = 0\<rparr>"
  by (simp add: process_data_frame_def voxel_views_def)

text \<open>
  C10, amended. The length limit is applied to the length field of the wire frame only.
  A frame with the signature, a length within the limit and all its payload bytes is
  offered to the queue whatever the length of what \<open>gzip.decompress\<close> returns. A payload
  that is not empty and whose length is a multiple of 4, of any size, taken by the
  rasterizer's next pass with the page byte at 0 or 1, is rasterized in full and
  flipped: it has one record for each four bytes, each of them is either written or
  counted in \<open>num_invalid\<close>, the page byte becomes the index of the page written, and
  that page holds, at every voxel, the colour of the last record within bounds that
  names the voxel, or 0 where there is none. The one rejection by point count is that of
  a payload without a complete record, which is skipped before the flip.
\<close>

theorem no_limit_on_decompressed_size:
  assumes pg: "page (shm s) = 0 \<or> page (shm s) = 1"
    and ne: "data \<noteq> []" and m4: "length data mod 4 = 0"
    and i: "i < length (conns s)" and op: "conns s ! i = Open reader"
    and q: "length (frame_queue s) \<le> frame_queue_maxlen"
    and sg: "take 4 reader = signature"
    and L: "unpack_I (take 4 (drop 4 reader)) = L"
    and mx: "L \<le> max_packet_length" and ln: "8 + L \<le> length reader"
    and gz: "decompress (take L (drop 8 reader)) = Inr data"
  shows "let w = 1 - unat (page (shm s));
             records = rows4 data;
             r = process_data_frame (page (shm s)) data;
             s1 = conn_step decompress i s;
             s2 = process_data_iter s1
         in conns s1 ! i = Open (drop L (drop 8 reader)) \<and>
            frame_queue s1 = [data] \<and>
            outcome r = Flipped \<and>
            length records = length data div 4 \<and>
            filter is_put (stores r) = map (put_point w) (filter valid_mask records) \<and>
            num_invalid r = length (filter (\<lambda>q. \<not> valid_mask q) records) \<and>
            length (filter is_put (stores r)) + num_invalid r = length data div 4 \<and>
            frame_queue s2 = [] \<and>
            page (shm s2) = of_nat w \<and>
            (\<forall>j < voxels_count.
               buffers (shm s2) (w * voxels_count + j) =
                 last_writer_wins (filter valid_mask records) j)"
proof -
  let ?p = "page (shm s)"
  let ?w = "1 - unat ?p"
  let ?kept = "filter valid_mask (rows4 data)"
  let ?r = "process_data_frame ?p data"
  let ?s1 = "conn_step decompress i s"
  have vv: "voxel_views (1 - uint ?p) = Inr ?w" by (rule voxel_views_page [OF pg])
  have wp: "(word_of_int (1 - uint ?p) :: u8) = of_nat ?w" using pg by auto
  have d4: "length data div 4 \<noteq> 0"
  proof
    assume "length data div 4 = 0"
    with m4 have "length data = 0" by arith
    with ne show False by simp
  qed
  have run: "?r = \<lparr>stores = Fill ?w # map (put_point ?w) ?kept @ [SetPage (of_nat ?w)],
                   outcome = Flipped,
                   num_invalid = length (filter (\<lambda>q. \<not> valid_mask q) (rows4 data))\<rparr>"
    by (rule process_data_frame_flipped [OF vv d4 m4, unfolded wp])
  have puts: "filter is_put (map (put_point v) xs) = map (put_point v) xs" for v xs
    by (induction xs) (simp_all add: put_point_is_put)
  have st: "filter is_put (stores ?r) = map (put_point ?w) ?kept"
    by (simp add: run puts)
  have total: "length (filter is_put (stores ?r)) + num_invalid ?r = length data div 4"
    using sum_length_filter_compl [of valid_mask "rows4 data"] rows4_length [of data]
    by (simp add: st run)
  have it: "handle_client_iter decompress False reader (frame_queue s) =
      Continues (drop L (drop 8 reader)) [data]"
    using handle_client_iter_frame [OF sg L mx ln, of decompress False "frame_queue s"] gz
      frame_queue_append_single [OF q, of data]
    by simp
  have s1: "?s1 = s\<lparr>conns := (conns s)[i := Open (drop L (drop 8 reader))], frame_queue := [data]\<rparr>"
    using conn_step_open [OF i op, of decompress] it by (simp add: apply_pass_def)
  have q1: "frame_queue ?s1 = [data]" by (simp add: s1)
  have c1: "conns ?s1 ! i = Open (drop L (drop 8 reader))" using i by (simp add: s1)
  have s2: "process_data_iter ?s1 = ?s1\<lparr>frame_queue := [], shm := process_data_body (shm s) data\<rparr>"
    using process_data_iter_single [OF q1] by (simp add: s1)
  let ?cleared = "store (Fill ?w) (shm s)"
  have body: "process_data_body (shm s) data =
      store (SetPage (of_nat ?w)) (run_stores (map (put_point ?w) ?kept) ?cleared)"
    by (simp add: process_data_body_def run run_stores_def)
  have pgb: "page (process_data_body (shm s) data) = of_nat ?w"
    by (simp add: body)
  have cell: "buffers (process_data_body (shm s) data) (?w * voxels_count + j) =
      last_writer_wins ?kept j" if "j < voxels_count" for j
  proof -
    have "buffers (process_data_body (shm s) data) (?w * voxels_count + j) =
        buffers (run_stores (map (put_point ?w) ?kept) ?cleared) (?w * voxels_count + j)"
      by (simp add: body)
    also have "\<dots> = (case map_of (rev (map point_cell ?kept)) j of
        None \<Rightarrow> buffers ?cleared (?w * voxels_count + j) | Some c \<Rightarrow> c)"
      by (rule run_puts)
    also have "buffers ?cleared (?w * voxels_count + j) = 0" using that by simp
    finally show ?thesis by (simp add: last_writer_wins_def)
  qed
  show ?thesis
    unfolding Let_def s2
    using c1 q1 run rows4_length [of data] st total pgb cell by simp
qed

theorem no_limit_on_decompressed_size_witness:
  "let gz = (\<lambda>c :: bytes. Inr (c @ c @ [200, 0, 0, 9]) :: py_exception + bytes);
       reader = [0xFF, 0xFF, 0xFF, 0xFF, 0, 0, 0, 4, 5, 6, 7, 8];
       data = [5, 6, 7, 8, 5, 6, 7, 8, 200, 0, 0, 9];
       b = \<lparr>buffers = (\<lambda>a. 7), page = 0, bpc = 3, flags = 0, rpm = 0, uspf = 0\<rparr>;
       s = \<lparr>conns = [Open reader], frame_queue = [], shm = b\<rparr>;
       r = process_data_frame 0 data;
       s2 = process_data_iter (conn_step gz 0 s)
   in data \<noteq> [] \<and> length data mod 4 = 0 \<and> take 4 reader = signature \<and>
      unpack_I (take 4 (drop 4 reader)) = 4 \<and> gz (take 4 (drop 8 reader)) = Inr data \<and>
      frame_queue (conn_step gz 0 s) = [data] \<and>
      outcome r = Flipped \<and>
      stores r = [Fill 1, Put 1 49479 8, Put 1 49479 8, SetPage 1] \<and>
      num_invalid r = 1 \<and>
      page (shm s2) = 1 \<and>
      (\<forall>j < voxels_count.
         buffers (shm s2) (voxels_count + j) = last_writer_wins [(5, 6, 7, 8), (5, 6, 7, 8)] j)"
  using no_limit_on_decompressed_size
    [of "\<lparr>conns = [Open [0xFF, 0xFF, 0xFF, 0xFF, 0, 0, 0, 4, 5, 6, 7, 8]], frame_queue = [],
           shm = \<lparr>buffers = (\<lambda>a. 7), page = 0, bpc = 3, flags = 0, rpm = 0, uspf = 0\<rparr>\<rparr>"
        "[5, 6, 7, 8, 5, 6, 7, 8, 200, 0, 0, 9]" 0
        "[0xFF, 0xFF, 0xFF, 0xFF, 0, 0, 0, 4, 5, 6, 7, 8]" 4
        "\<lambda>c :: bytes. Inr (c @ c @ [200, 0, 0, 9])"]
  by (simp add: Let_def signature_def unpack_I_def max_packet_length_def
      frame_queue_maxlen_def process_data_frame_def voxel_views_def
      reshape4_def voxels_x_def voxels_y_def voxels_z_def voxel_index_def)

end
